theory Spec2Isabelle
  imports Complex_Main "HOL-Library.AList"
begin

section \<open>The session engine of cogs/games.py\<close>

text \<open>
  Python exceptions are values of \<open>error\<close>; a function that can raise returns
  \<open>error + 'a\<close> with \<open>Inl\<close> for the exception.
\<close>

datatype error = KeyError | IndexError

subsection \<open>Duel moves\<close>

definition DUEL_MOVES :: "string list" where
  "DUEL_MOVES = [''strike'', ''guard'', ''feint'']"

text \<open>The dictionary literal \<open>beats\<close> of \<open>duel_resolve\<close>, in its source order.\<close>

definition beats :: "(string \<times> string) list" where
  "beats = [(''strike'', ''feint''), (''feint'', ''guard''), (''guard'', ''strike'')]"

text \<open>
  \<open>duel_resolve\<close>: 0 is a tie, 1 the challenger's win, 2 the opponent's. The lookup
  \<open>beats[a_move]\<close> raises \<open>KeyError\<close> on a key that is not in the dictionary.
\<close>

definition duel_resolve :: "string \<Rightarrow> string \<Rightarrow> error + int" where
  "duel_resolve a_move b_move =
     (if a_move = b_move then Inr 0
      else case map_of beats a_move of
             None \<Rightarrow> Inl KeyError
           | Some x \<Rightarrow> Inr (if x = b_move then 1 else 2))"

subsection \<open>Strings\<close>

text \<open>
  The string methods the handlers use, on 8-bit characters: \<open>lower\<close> and \<open>upper\<close>
  change the ASCII letters, \<open>strip\<close> removes ASCII white space at both ends, and
  \<open>isalnum\<close> holds of the ASCII letters and digits.
\<close>

definition ascii_uppercase :: string where
  "ascii_uppercase = ''ABCDEFGHIJKLMNOPQRSTUVWXYZ''"

definition ascii_lowercase :: string where
  "ascii_lowercase = ''abcdefghijklmnopqrstuvwxyz''"

definition ascii_digits :: string where
  "ascii_digits = ''0123456789''"

definition whitespace :: string where
  "whitespace = [CHR '' '', CHR 0x09, CHR 0x0A, CHR 0x0B, CHR 0x0C, CHR 0x0D]"

definition lower_char :: "char \<Rightarrow> char" where
  "lower_char c = (case map_of (zip ascii_uppercase ascii_lowercase) c of None \<Rightarrow> c | Some l \<Rightarrow> l)"

definition upper_char :: "char \<Rightarrow> char" where
  "upper_char c = (case map_of (zip ascii_lowercase ascii_uppercase) c of None \<Rightarrow> c | Some u \<Rightarrow> u)"

definition lower :: "string \<Rightarrow> string" where
  "lower s = map lower_char s"

definition upper :: "string \<Rightarrow> string" where
  "upper s = map upper_char s"

definition isspace :: "char \<Rightarrow> bool" where
  "isspace c \<longleftrightarrow> c \<in> set whitespace"

definition isalnum :: "char \<Rightarrow> bool" where
  "isalnum c \<longleftrightarrow> c \<in> set (ascii_lowercase @ ascii_uppercase @ ascii_digits)"

definition strip :: "string \<Rightarrow> string" where
  "strip s = rev (dropWhile isspace (rev (dropWhile isspace s)))"

definition startswith :: "string \<Rightarrow> string \<Rightarrow> bool" where
  "startswith s p \<longleftrightarrow> take (length p) s = p"

definition endswith :: "string \<Rightarrow> string \<Rightarrow> bool" where
  "endswith s p \<longleftrightarrow> length p \<le> length s \<and> drop (length s - length p) s = p"

text \<open>\<open>s.split(" ", 1)[1]\<close>: what follows the first space; no space raises.\<close>

definition after_space :: "string \<Rightarrow> error + string" where
  "after_space s =
     (if CHR '' '' \<in> set s then Inr (drop 1 (dropWhile (\<lambda>c. c \<noteq> CHR '' '') s))
      else Inl IndexError)"

text \<open>\<open>_norm\<close>: \<open>None\<close> counts as the empty string.\<close>

definition norm :: "string option \<Rightarrow> string" where
  "norm s = filter isalnum (lower (strip (case s of None \<Rightarrow> [] | Some x \<Rightarrow> x)))"

subsection \<open>The score ledger\<close>

text \<open>
  \<open>leaderboards.json\<close> holds one dictionary per guild, from user to points. The
  model keeps the dictionary itself; the keys \<open>str(guild_id)\<close> and \<open>str(user_id)\<close>
  are the integers they print.
\<close>

type_synonym ledger = "int \<rightharpoonup> (int \<rightharpoonup> int)"

definition guild_scores :: "ledger \<Rightarrow> int \<Rightarrow> (int \<rightharpoonup> int)" where
  "guild_scores data gk = (case data gk of None \<Rightarrow> Map.empty | Some g \<Rightarrow> g)"

definition get_points_in :: "ledger \<Rightarrow> int \<Rightarrow> int \<Rightarrow> int" where
  "get_points_in data guild_id user_id =
     (case guild_scores data guild_id user_id of None \<Rightarrow> 0 | Some p \<Rightarrow> p)"

definition add_points_in :: "ledger \<Rightarrow> int \<Rightarrow> int \<Rightarrow> int \<Rightarrow> ledger" where
  "add_points_in data guild_id user_id pts =
     (let g = guild_scores data guild_id
      in data(guild_id \<mapsto> g(user_id \<mapsto> (case g user_id of None \<Rightarrow> 0 | Some p \<Rightarrow> p) + pts)))"

subsection \<open>Session state\<close>

text \<open>
  A task handle is the number of an \<open>asyncio\<close> task; a \<open>DuelState\<close> object is passed
  between the handlers by reference, so the objects live in a store and the registry
  \<open>self.duels\<close> maps a guild to an address. The registry is kept in insertion order, the
  order in which a Python dictionary is iterated.
\<close>

type_synonym task = nat
type_synonym ref = nat

record DuelState =
  challenger_id :: int
  opponent_id :: int
  created_at :: real
  d_channel_id :: int
  accepted :: bool
  d_active :: bool
  ch_hp :: int
  op_hp :: int
  mode :: string
  ch_wins :: int
  op_wins :: int
  target_wins :: int
  ch_move :: "string option"
  op_move :: "string option"
  round_started_at :: real
  round_task :: "task option"
  d_timer_message_id :: "int option"

text \<open>
  A \<open>FoodState\<close> and a \<open>BattleState\<close> are reached through their registries only in
  the handlers below, so \<open>self.food\<close> and \<open>self.battle\<close> hold the objects themselves.
  An emoji is its code point.
\<close>

record FoodState =
  answer :: string
  emoji :: nat
  started_at :: real
  f_active :: bool
  rounds_total :: int
  round_index :: int
  seconds :: int
  hints_used :: int
  f_timer_task :: "task option"
  f_channel_id :: int
  last_guess_at :: "int \<rightharpoonup> real"

record BattleState =
  b_channel_id :: int
  questions_left :: "(string \<times> string) list"
  b_active :: bool
  started_by :: int
  current_q :: "(string \<times> string) option"
  asked_at :: real
  seconds_per_q :: int
  accepting :: bool
  buzz_winner_id :: "int option"
  b_timer_task :: "task option"
  b_timer_message_id :: "int option"

text \<open>The three hints of \<open>_food_hint\<close> and its refusal.\<close>

datatype hint_text =
    StartsWith char nat | VowelsRevealed "char option list" | FirstTwo string | NoMoreHints

text \<open>What the bot sends, by the message it is; the wording is left out.\<close>

datatype notice =
    NewRound | NobodyMoved | ChallengerForfeits | OpponentForfeits
  | RevealTie string string | RevealChallengerWins string string
  | RevealOpponentWins string string | DuelOver int int
  | InvalidMove | NoActiveDuel | AlreadySubmitted | MoveReceived
  | UseInServer | DuelUsage | CantDuelBot | CantDuelSelf | DuelAlreadyPending
  | DuelChallenge string | NoDuelPending | DuelAlreadyActive | DuelExpired
  | OnlyOpponentAccepts | DuelStarted string bool | OnlyOpponentDeclines
  | DuelDeclined | NoDuelPendingActive | OnlyParticipantsCancel | DuelCanceled
  | DuelStartedDM
  | FoodRound int int nat int | GameStarted | NoFoodToStop | FoodStopped | NoActiveFood
  | Hint hint_text | GuessUsage | GuessCorrect string int int | GuessWrong
  | BattleUsage | NoBattleToStop | BattleStopped | BattleStarted nat int
  | BattleFinished | Question string int | NoActiveBattle | BuzzUsage
  | BuzzCorrect int | BuzzWrong int string

datatype dest = Channel int | Reply | Direct int

record world =
  clock :: real
  ledger :: ledger
  tasks :: "task set"
  next_task :: task
  duel_heap :: "ref \<Rightarrow> DuelState"
  next_ref :: ref
  duels :: "(int \<times> ref) list"
  food :: "int \<rightharpoonup> FoodState"
  battle :: "int \<rightharpoonup> BattleState"
  outbox :: "(dest \<times> notice) list"

text \<open>
  \<open>tasks\<close> is the set of tasks that are scheduled and neither finished nor cancelled;
  \<open>create_task\<close> takes the next free number. \<open>clock\<close> is what \<open>time.time()\<close> returns.
  A send is recorded in \<open>outbox\<close> as attempted: \<open>_announce\<close> swallows a failed send.
\<close>

definition say :: "dest \<Rightarrow> notice \<Rightarrow> world \<Rightarrow> world" where
  "say d t w = w\<lparr>outbox := outbox w @ [(d, t)]\<rparr>"

definition announce :: "int \<Rightarrow> notice \<Rightarrow> world \<Rightarrow> world" where
  "announce channel_id t w = say (Channel channel_id) t w"

definition create_task :: "world \<Rightarrow> task \<times> world" where
  "create_task w =
     (next_task w, w\<lparr>tasks := insert (next_task w) (tasks w), next_task := Suc (next_task w)\<rparr>)"

definition upd_duel :: "ref \<Rightarrow> (DuelState \<Rightarrow> DuelState) \<Rightarrow> world \<Rightarrow> world" where
  "upd_duel r f w = w\<lparr>duel_heap := (duel_heap w)(r := f (duel_heap w r))\<rparr>"

definition add_points :: "int \<Rightarrow> int \<Rightarrow> int \<Rightarrow> world \<Rightarrow> world" where
  "add_points guild_id user_id pts w = w\<lparr>ledger := add_points_in (ledger w) guild_id user_id pts\<rparr>"

definition get_points :: "int \<Rightarrow> int \<Rightarrow> world \<Rightarrow> int" where
  "get_points guild_id user_id w = get_points_in (ledger w) guild_id user_id"

subsection \<open>Duel helpers\<close>

definition duel_expired :: "DuelState \<Rightarrow> world \<Rightarrow> bool" where
  "duel_expired st w \<longleftrightarrow> clock w - created_at st > 120"

text \<open>
  \<open>_cancel_round_timer\<close>: the handle is cleared, and the task is cancelled when there is
  one and it is not done.
\<close>

definition cancel_round_timer :: "ref \<Rightarrow> world \<Rightarrow> world" where
  "cancel_round_timer r w =
     (let t = round_task (duel_heap w r);
          w1 = upd_duel r (\<lambda>st. st\<lparr>round_task := None\<rparr>) w
      in case t of
           None \<Rightarrow> w1
         | Some k \<Rightarrow> if k \<in> tasks w1 then w1\<lparr>tasks := tasks w1 - {k}\<rparr> else w1)"

definition start_round :: "int \<Rightarrow> ref \<Rightarrow> world \<Rightarrow> world" where
  "start_round guild_id r w =
     (let w1 = upd_duel r (\<lambda>st. st\<lparr>ch_move := None, op_move := None,
                                      round_started_at := clock w\<rparr>) w;
          w2 = announce (d_channel_id (duel_heap w1 r)) NewRound w1;
          w3 = cancel_round_timer r w2;
          (t, w4) = create_task w3
      in upd_duel r (\<lambda>st. st\<lparr>round_task := Some t\<rparr>) w4)"







subsection \<open>The direct-message listener\<close>

record message =
  author_bot :: bool
  m_author :: int
  m_guild :: "int option"
  content :: string

definition strip_move :: "string \<Rightarrow> string" where
  "strip_move raw =
     (let m = lower (strip raw)
      in if startswith m ''<'' \<and> endswith m ''>'' \<and> length m \<ge> 3
         then lower (strip (butlast (tl m))) else m)"




text \<open>
  \<open>parse_move\<close> is \<open>on_message\<close> down to the validity check: \<open>None\<close> when the message is
  not a move command, otherwise the move text, valid or not.
\<close>

definition parse_move :: "string \<Rightarrow> (error + string) option" where
  "parse_move text =
     (let content = strip text
      in if content = [] then None
         else let lower0 = strip (lower content);
                  lower1 = (if startswith lower0 ''!'' then strip (drop 1 lower0) else lower0)
              in if startswith lower1 ''move '' \<or> startswith lower1 ''duelmove ''
                 then Some (case after_space lower1 of
                              Inl e \<Rightarrow> Inl e
                            | Inr raw_move \<Rightarrow> Inr (strip_move raw_move))
                 else None)"



subsection \<open>The duel commands\<close>

record ctx =
  guild :: "int option"
  author :: int
  channel :: int

record member =
  member_id :: int
  member_bot :: bool

definition new_duel :: "int \<Rightarrow> int \<Rightarrow> real \<Rightarrow> int \<Rightarrow> string \<Rightarrow> DuelState" where
  "new_duel ch opp now chan duel_mode =
     \<lparr>challenger_id = ch, opponent_id = opp, created_at = now, d_channel_id = chan,
      accepted = False, d_active = False, ch_hp = 3, op_hp = 3, mode = duel_mode,
      ch_wins = 0, op_wins = 0, target_wins = 2, ch_move = None, op_move = None,
      round_started_at = 0, round_task = None, d_timer_message_id = None\<rparr>"

definition duel :: "ctx \<Rightarrow> member option \<Rightarrow> string option \<Rightarrow> world \<Rightarrow> world" where
  "duel c opponent md w =
     (case guild c of
        None \<Rightarrow> say Reply UseInServer w
      | Some gid \<Rightarrow>
         (case opponent of
            None \<Rightarrow> say Reply DuelUsage w
          | Some opp \<Rightarrow>
              if member_bot opp then say Reply CantDuelBot w
              else if member_id opp = author c then say Reply CantDuelSelf w
              else if (case map_of (duels w) gid of
                         None \<Rightarrow> False
                       | Some e \<Rightarrow> d_active (duel_heap w e) \<or> \<not> duel_expired (duel_heap w e) w)
              then say Reply DuelAlreadyPending w
              else
                (let duel_mode = (if lower (strip (case md of None \<Rightarrow> [] | Some m \<Rightarrow> m)) = ''bo3''
                                  then ''bo3'' else ''hp'');
                     r = next_ref w;
                     w1 = w\<lparr>duel_heap := (duel_heap w)
                               (r := new_duel (author c) (member_id opp) (clock w) (channel c) duel_mode),
                            next_ref := Suc r,
                            duels := AList.update gid r (duels w)\<rparr>
                 in say Reply (DuelChallenge duel_mode) w1)))"

text \<open>
  \<open>duelaccept\<close>; whether the two direct messages of \<open>_try_dm\<close> arrive is decided outside,
  so it is given.
\<close>

definition duelaccept :: "ctx \<Rightarrow> bool \<Rightarrow> bool \<Rightarrow> world \<Rightarrow> world" where
  "duelaccept c ch_ok op_ok w =
     (case guild c of
        None \<Rightarrow> say Reply UseInServer w
      | Some gid \<Rightarrow>
         (case map_of (duels w) gid of
            None \<Rightarrow> say Reply NoDuelPending w
          | Some r \<Rightarrow>
              if d_active (duel_heap w r) then say Reply DuelAlreadyActive w
              else if duel_expired (duel_heap w r) w
              then say Reply DuelExpired (w\<lparr>duels := AList.delete gid (duels w)\<rparr>)
              else if author c \<noteq> opponent_id (duel_heap w r) then say Reply OnlyOpponentAccepts w
              else
                (let w1 = upd_duel r (\<lambda>st. st\<lparr>accepted := True, d_active := True,
                                             ch_hp := 3, op_hp := 3, ch_wins := 0, op_wins := 0,
                                             ch_move := None, op_move := None\<rparr>) w;
                     w2 = say (Direct (challenger_id (duel_heap w1 r))) DuelStartedDM w1;
                     w3 = say (Direct (opponent_id (duel_heap w2 r))) DuelStartedDM w2;
                     w4 = say Reply (DuelStarted (mode (duel_heap w3 r)) (\<not> ch_ok \<or> \<not> op_ok)) w3
                 in start_round gid r w4)))"

definition dueldecline :: "ctx \<Rightarrow> world \<Rightarrow> world" where
  "dueldecline c w =
     (case guild c of
        None \<Rightarrow> say Reply UseInServer w
      | Some gid \<Rightarrow>
         (case map_of (duels w) gid of
            None \<Rightarrow> say Reply NoDuelPending w
          | Some r \<Rightarrow>
              if author c \<noteq> opponent_id (duel_heap w r) then say Reply OnlyOpponentDeclines w
              else say Reply DuelDeclined (w\<lparr>duels := AList.delete gid (duels w)\<rparr>)))"

definition duelcancel :: "ctx \<Rightarrow> world \<Rightarrow> world" where
  "duelcancel c w =
     (case guild c of
        None \<Rightarrow> say Reply UseInServer w
      | Some gid \<Rightarrow>
         (case map_of (duels w) gid of
            None \<Rightarrow> say Reply NoDuelPendingActive w
          | Some r \<Rightarrow>
              if author c \<noteq> challenger_id (duel_heap w r) \<and> author c \<noteq> opponent_id (duel_heap w r)
              then say Reply OnlyParticipantsCancel w
              else say Reply DuelCanceled
                     (cancel_round_timer r (w\<lparr>duels := AList.delete gid (duels w)\<rparr>))))"

subsection \<open>The food guessing game\<close>

definition FOOD_BANK :: "(nat \<times> string) list" where
  "FOOD_BANK = [(0x1F363, ''sushi''), (0x1F35C, ''ramen''), (0x1F355, ''pizza''),
     (0x1F32E, ''taco''), (0x1F354, ''burger''), (0x1F369, ''donut''),
     (0x1F95E, ''pancakes''), (0x1F35B, ''curry''), (0x1F366, ''icecream''),
     (0x1F359, ''onigiri'')]"

definition FOOD_DEFAULT_ROUNDS :: int where "FOOD_DEFAULT_ROUNDS = 1"
definition FOOD_DEFAULT_SECONDS :: int where "FOOD_DEFAULT_SECONDS = 30"
definition FOOD_GUESS_COOLDOWN :: real where "FOOD_GUESS_COOLDOWN = 5 / 4"

text \<open>\<open>int(x)\<close> on a float: the fraction is cut off, towards zero.\<close>

definition py_int :: "real \<Rightarrow> int" where
  "py_int x = (if x \<ge> 0 then \<lfloor>x\<rfloor> else \<lceil>x\<rceil>)"

text \<open>
  \<open>_food_hint\<close>. A hidden letter of the vowel hint is \<open>None\<close>. The first hint reads
  \<open>a[0]\<close>, which raises on an empty answer.
\<close>

definition food_hint :: "string \<Rightarrow> int \<Rightarrow> error + hint_text" where
  "food_hint ans used =
     (let a = strip (lower ans)
      in if used = 0 then
           (case a of [] \<Rightarrow> Inl IndexError
                    | c # _ \<Rightarrow> Inr (StartsWith (upper_char c) (length a)))
         else if used = 1 then
           Inr (VowelsRevealed (map (\<lambda>ch. if ch \<in> set ''aeiou'' then Some ch else None) a))
         else if used = 2 then Inr (FirstTwo (upper (take 2 a)))
         else Inr NoMoreHints)"

text \<open>
  \<open>_cancel_food_timer(st)\<close>; every caller below passes the object registered for the
  guild, so the guild stands for it.
\<close>

definition upd_food :: "int \<Rightarrow> (FoodState \<Rightarrow> FoodState) \<Rightarrow> world \<Rightarrow> world" where
  "upd_food gid f w = w\<lparr>food := (food w)(gid := map_option f (food w gid))\<rparr>"

definition cancel_food_timer :: "int \<Rightarrow> world \<Rightarrow> world" where
  "cancel_food_timer gid w =
     (case food w gid of
        None \<Rightarrow> w
      | Some st \<Rightarrow>
          (let w1 = upd_food gid (\<lambda>st. st\<lparr>f_timer_task := None\<rparr>) w
           in case f_timer_task st of
                None \<Rightarrow> w1
              | Some k \<Rightarrow> if k \<in> tasks w1 then w1\<lparr>tasks := tasks w1 - {k}\<rparr> else w1))"

text \<open>
  \<open>_start_next_food_round\<close>; \<open>choice\<close> is what \<open>random.choice(FOOD_BANK)\<close> returns.
\<close>

definition start_next_food_round ::
    "int \<Rightarrow> int \<Rightarrow> int \<Rightarrow> int \<Rightarrow> int \<Rightarrow> nat \<times> string \<Rightarrow> world \<Rightarrow> world" where
  "start_next_food_round guild_id channel_id rounds_total' next_round seconds' choice w =
     (let st = \<lparr>answer = lower (snd choice), emoji = fst choice, started_at = clock w,
                f_active = True, rounds_total = rounds_total', round_index = next_round,
                seconds = seconds', hints_used = 0, f_timer_task = None,
                f_channel_id = channel_id, last_guess_at = Map.empty\<rparr>;
          w1 = w\<lparr>food := (food w)(guild_id \<mapsto> st)\<rparr>;
          w2 = announce channel_id
                 (FoodRound (round_index st) (rounds_total st) (emoji st) (seconds st)) w1;
          w3 = cancel_food_timer guild_id w2;
          (t, w4) = create_task w3
      in upd_food guild_id (\<lambda>st. st\<lparr>f_timer_task := Some t\<rparr>) w4)"

definition is_active_food :: "FoodState option \<Rightarrow> bool" where
  "is_active_food st \<longleftrightarrow> (case st of None \<Rightarrow> False | Some x \<Rightarrow> f_active x)"

definition foodgame :: "ctx \<Rightarrow> int option \<Rightarrow> nat \<times> string \<Rightarrow> world \<Rightarrow> world" where
  "foodgame c rounds choice w =
     (case guild c of
        None \<Rightarrow> say Reply UseInServer w
      | Some gid \<Rightarrow>
          (let w1 = (if is_active_food (food w gid) then cancel_food_timer gid w else w);
               rt = (case rounds of None \<Rightarrow> FOOD_DEFAULT_ROUNDS | Some n \<Rightarrow> max 1 (min n 20));
               w2 = start_next_food_round gid (channel c) rt 1 FOOD_DEFAULT_SECONDS choice w1
           in say Reply GameStarted w2))"

definition foodstop :: "ctx \<Rightarrow> world \<Rightarrow> world" where
  "foodstop c w =
     (case guild c of
        None \<Rightarrow> say Reply UseInServer w
      | Some gid \<Rightarrow>
          if \<not> is_active_food (food w gid) then say Reply NoFoodToStop w
          else say Reply FoodStopped
                 (cancel_food_timer gid (upd_food gid (\<lambda>st. st\<lparr>f_active := False\<rparr>) w)))"

text \<open>
  \<open>hint\<close>: the counter is raised before the hint is built, so it stays raised when
  \<open>_food_hint\<close> raises; the error, if any, comes with the world.
\<close>

definition hint :: "ctx \<Rightarrow> world \<Rightarrow> error option \<times> world" where
  "hint c w =
     (case guild c of
        None \<Rightarrow> (None, say Reply UseInServer w)
      | Some gid \<Rightarrow>
          (case food w gid of
             None \<Rightarrow> (None, say Reply NoActiveFood w)
           | Some st \<Rightarrow>
               if \<not> f_active st then (None, say Reply NoActiveFood w)
               else
                 (let w1 = upd_food gid (\<lambda>st. st\<lparr>hints_used := hints_used st + 1\<rparr>) w
                  in case food_hint (answer st) (hints_used st + 1 - 1) of
                       Inl e \<Rightarrow> (Some e, w1)
                     | Inr msg \<Rightarrow> (None, say Reply (Hint msg) w1))))"

text \<open>The points of a correct guess, as \<open>guess\<close> computes them.\<close>

definition guess_points :: "real \<Rightarrow> real \<Rightarrow> int \<Rightarrow> int" where
  "guess_points now started used =
     (let elapsed = max 1 (py_int (now - started));
          speed_bonus = (if elapsed \<le> 10 then 1 else 0);
          hint_penalty = min used 2
      in max 1 (2 + speed_bonus - hint_penalty))"

text \<open>
  \<open>guess\<close>; \<open>asyncio.sleep(1.0)\<close> moves the clock on by the second slept, and \<open>choice\<close>
  is the draw of the next round, if one starts.
\<close>

definition guess :: "ctx \<Rightarrow> string option \<Rightarrow> nat \<times> string \<Rightarrow> world \<Rightarrow> world" where
  "guess c ans_opt choice w =
     (case guild c of
        None \<Rightarrow> say Reply UseInServer w
      | Some gid \<Rightarrow>
          (case food w gid of
             None \<Rightarrow> say Reply NoActiveFood w
           | Some st \<Rightarrow>
               if \<not> f_active st then say Reply NoActiveFood w
               else if ans_opt = None \<or> ans_opt = Some [] then say Reply GuessUsage w
               else
                 (let now = clock w;
                      last = (case last_guess_at st (author c) of None \<Rightarrow> 0 | Some t \<Rightarrow> t)
                  in if now - last < FOOD_GUESS_COOLDOWN then w
                     else
                       (let w1 = upd_food gid
                                   (\<lambda>st. st\<lparr>last_guess_at := (last_guess_at st)(author c \<mapsto> now)\<rparr>) w;
                            ans = lower (strip (the ans_opt))
                        in if ans = answer st then
                             (let w2 = cancel_food_timer gid
                                         (upd_food gid (\<lambda>st. st\<lparr>f_active := False\<rparr>) w1);
                                  pts = guess_points now (started_at st) (hints_used st);
                                  w3 = add_points gid (author c) pts w2;
                                  w4 = say Reply (GuessCorrect (answer st) (author c) pts) w3
                              in if round_index st < rounds_total st
                                 then start_next_food_round gid (f_channel_id st) (rounds_total st)
                                        (round_index st + 1) (seconds st) choice
                                        (w4\<lparr>clock := clock w4 + 1\<rparr>)
                                 else w4)
                           else say Reply GuessWrong w1))))"

subsection \<open>The culture battle\<close>

text \<open>
  The question bank; the apostrophe of the first prompt is written as the ASCII one.
\<close>

definition CULTURE_Q :: "(string \<times> string) list" where
  "CULTURE_Q =
     [(''Japan'' @ [CHR 0x27] @ ''s capital city is?'', ''tokyo''),
      (''Famous Japanese bullet train is called?'', ''shinkansen''),
      (''Traditional Japanese warrior class is?'', ''samurai''),
      (''Japanese currency is the?'', ''yen''),
      (''Famous mountain often seen in art is Mount?'', ''fuji''),
      (''The traditional Japanese tea ceremony centers on?'', ''matcha'')]"

definition CULTURE_DEFAULT_Q :: int where "CULTURE_DEFAULT_Q = 5"
definition CULTURE_DEFAULT_SECONDS :: int where "CULTURE_DEFAULT_SECONDS = 20"

definition upd_battle :: "int \<Rightarrow> (BattleState \<Rightarrow> BattleState) \<Rightarrow> world \<Rightarrow> world" where
  "upd_battle gid f w = w\<lparr>battle := (battle w)(gid := map_option f (battle w gid))\<rparr>"

text \<open>
  \<open>_cancel_battle_timer(st)\<close>, called on the object registered for the guild.
\<close>

definition cancel_battle_timer :: "int \<Rightarrow> world \<Rightarrow> world" where
  "cancel_battle_timer gid w =
     (case battle w gid of
        None \<Rightarrow> w
      | Some st \<Rightarrow>
          (let w1 = upd_battle gid (\<lambda>st. st\<lparr>b_timer_task := None\<rparr>) w
           in case b_timer_task st of
                None \<Rightarrow> w1
              | Some k \<Rightarrow> if k \<in> tasks w1 then w1\<lparr>tasks := tasks w1 - {k}\<rparr> else w1))"

definition ask_next_question :: "int \<Rightarrow> world \<Rightarrow> world" where
  "ask_next_question guild_id w =
     (case battle w guild_id of
        None \<Rightarrow> w
      | Some st \<Rightarrow>
          if \<not> b_active st then w
          else
            (let w1 = cancel_battle_timer guild_id w
             in case questions_left st of
                  [] \<Rightarrow>
                    announce (b_channel_id st) BattleFinished
                      (upd_battle guild_id
                         (\<lambda>st. st\<lparr>b_active := False, current_q := None,
                                   accepting := False, buzz_winner_id := None\<rparr>) w1)
                | q # qs \<Rightarrow>
                    (let w2 = upd_battle guild_id
                                (\<lambda>st. st\<lparr>questions_left := qs, current_q := Some q,
                                          asked_at := clock w, accepting := True,
                                          buzz_winner_id := None\<rparr>) w1;
                         w3 = announce (b_channel_id st) (Question (fst q) (seconds_per_q st)) w2;
                         (t, w4) = create_task w3
                     in upd_battle guild_id (\<lambda>st. st\<lparr>b_timer_task := Some t\<rparr>) w4)))"

definition is_active_battle :: "BattleState option \<Rightarrow> bool" where
  "is_active_battle st \<longleftrightarrow> (case st of None \<Rightarrow> False | Some x \<Rightarrow> b_active x)"

text \<open>
  \<open>battle_cmd\<close>; \<open>qpool\<close> is the copy of \<open>CULTURE_Q\<close> as \<open>random.shuffle\<close> left it.
\<close>

definition battle_cmd ::
    "ctx \<Rightarrow> string option \<Rightarrow> int option \<Rightarrow> int option \<Rightarrow> (string \<times> string) list
       \<Rightarrow> world \<Rightarrow> world" where
  "battle_cmd c action_opt n secs qpool w =
     (case guild c of
        None \<Rightarrow> say Reply UseInServer w
      | Some gid \<Rightarrow>
          (let action = strip (lower (case action_opt of None \<Rightarrow> [] | Some a \<Rightarrow> a))
           in if action \<noteq> ''start'' \<and> action \<noteq> ''stop'' then say Reply BattleUsage w
              else if action = ''stop'' then
                (if \<not> is_active_battle (battle w gid) then say Reply NoBattleToStop w
                 else say Reply BattleStopped
                        (cancel_battle_timer gid
                           (upd_battle gid (\<lambda>st. st\<lparr>b_active := False\<rparr>) w)))
              else
                (let total_q = (case n of None \<Rightarrow> CULTURE_DEFAULT_Q | Some k \<Rightarrow> max 1 (min k 50));
                     sec = (case secs of None \<Rightarrow> CULTURE_DEFAULT_SECONDS
                                       | Some k \<Rightarrow> max 8 (min k 60));
                     chosen = take (nat (min total_q (int (length qpool)))) qpool;
                     st = \<lparr>b_channel_id = channel c, questions_left = chosen, b_active = True,
                            started_by = author c, current_q = None, asked_at = 0,
                            seconds_per_q = sec, accepting = False, buzz_winner_id = None,
                            b_timer_task = None, b_timer_message_id = None\<rparr>;
                     w1 = w\<lparr>battle := (battle w)(gid \<mapsto> st)\<rparr>;
                     w2 = say Reply (BattleStarted (length chosen) sec) w1
                 in ask_next_question gid w2)))"

text \<open>
  \<open>buzz\<close> in two parts. \<open>buzz_claim\<close> runs down to the assignment of
  \<open>buzz_winner_id\<close>: between the test of \<open>accepting\<close> and that assignment the
  coroutine awaits nothing, so no other handler runs in between. It tells whether the
  buzz was accepted. \<open>buzz_settle\<close> is the rest: the answer is checked, the score is
  changed, and after a second the next question is asked.
\<close>

definition buzz_claim :: "ctx \<Rightarrow> string option \<Rightarrow> world \<Rightarrow> bool \<times> world" where
  "buzz_claim c ans_opt w =
     (case guild c of
        None \<Rightarrow> (False, say Reply UseInServer w)
      | Some gid \<Rightarrow>
          (case battle w gid of
             None \<Rightarrow> (False, say Reply NoActiveBattle w)
           | Some st \<Rightarrow>
               if \<not> b_active st \<or> current_q st = None then (False, say Reply NoActiveBattle w)
               else if channel c \<noteq> b_channel_id st then (False, w)
               else if ans_opt = None \<or> ans_opt = Some [] then (False, say Reply BuzzUsage w)
               else if \<not> accepting st then (False, w)
               else (True, upd_battle gid
                             (\<lambda>st. st\<lparr>accepting := False, buzz_winner_id := Some (author c)\<rparr>) w)))"

definition set_points :: "int \<Rightarrow> int \<Rightarrow> int \<Rightarrow> world \<Rightarrow> world" where
  "set_points guild_id user_id new_pts w =
     w\<lparr>ledger := (ledger w)(guild_id \<mapsto> (guild_scores (ledger w) guild_id)(user_id \<mapsto> new_pts))\<rparr>"

definition buzz_settle :: "int \<Rightarrow> ctx \<Rightarrow> string option \<Rightarrow> world \<Rightarrow> world" where
  "buzz_settle gid c ans_opt w =
     (case battle w gid of
        None \<Rightarrow> w
      | Some st \<Rightarrow>
          (case current_q st of
             None \<Rightarrow> w
           | Some (qtext, correct_raw) \<Rightarrow>
               if norm ans_opt = norm (Some correct_raw) then
                 (let w1 = add_points gid (author c) 2 w;
                      w2 = say Reply (BuzzCorrect (author c)) w1
                  in ask_next_question gid (w2\<lparr>clock := clock w2 + 1\<rparr>))
               else
                 (let cur_pts = get_points gid (author c) w;
                      new_pts = max 0 (cur_pts - 1);
                      w1 = set_points gid (author c) new_pts w;
                      w2 = say Reply (BuzzWrong (author c) correct_raw) w1
                  in ask_next_question gid (w2\<lparr>clock := clock w2 + 1\<rparr>))))"

definition buzz :: "ctx \<Rightarrow> string option \<Rightarrow> world \<Rightarrow> world" where
  "buzz c ans_opt w =
     (case buzz_claim c ans_opt w of
        (False, w1) \<Rightarrow> w1
      | (True, w1) \<Rightarrow> buzz_settle (the (guild c)) c ans_opt w1)"

text \<open>A run of buzzes on the same question: each is a claim attempt.\<close>

fun buzz_claims :: "(ctx \<times> string option) list \<Rightarrow> world \<Rightarrow> world" where
  "buzz_claims [] w = w"
| "buzz_claims ((c, a) # bs) w = buzz_claims bs (snd (buzz_claim c a w))"

subsection \<open>Repeated requests, and the specification's formula\<close>

text \<open>\<open>hints_n n\<close> is \<open>n\<close> hint requests in a row from the same context.\<close>

fun hints_n :: "nat \<Rightarrow> ctx \<Rightarrow> world \<Rightarrow> world" where
  "hints_n 0 c w = w"
| "hints_n (Suc n) c w = hints_n n c (snd (hint c w))"

text \<open>
  The points of a correct guess as the specification words them: the speed bonus is 1
  when the round was solved within 10 seconds of its start.
\<close>

definition spec_guess_points :: "real \<Rightarrow> int \<Rightarrow> int" where
  "spec_guess_points solved_after used =
     max 1 (2 + (if solved_after \<le> 10 then 1 else 0) - min used 2)"

subsection \<open>Example states\<close>



text \<open>
  The empty bot, a context for guild \<open>g\<close>, author \<open>a\<close> and channel \<open>c\<close>, and the worlds
  reached when user 11 challenges user 22 in guild 7 and user 22 accepts.
\<close>

definition world_init :: world where
  "world_init = \<lparr>clock = 0, ledger = Map.empty, tasks = {}, next_task = 0,
     duel_heap = (\<lambda>_. new_duel 0 0 0 0 ''hp''), next_ref = 0, duels = [],
     food = Map.empty, battle = Map.empty, outbox = []\<rparr>"

definition ctx_of :: "int \<Rightarrow> int \<Rightarrow> int \<Rightarrow> ctx" where
  "ctx_of g a c = \<lparr>guild = Some g, author = a, channel = c\<rparr>"



definition world_pending :: world where
  "world_pending = duel (ctx_of 7 11 5) (Some \<lparr>member_id = 22, member_bot = False\<rparr>) None world_init"

definition world_active :: world where
  "world_active = duelaccept (ctx_of 7 22 5) True True world_pending"




text \<open>
  A one-round food game in guild 7, started at time 0 with the answer sushi, and its
  round.
\<close>

definition world_food :: world where
  "world_food = foodgame (ctx_of 7 11 5) None (0x1F363, ''sushi'') world_init"

definition food0 :: FoodState where
  "food0 = \<lparr>answer = ''sushi'', emoji = 0x1F363, started_at = 0, f_active = True,
     rounds_total = 1, round_index = 1, seconds = 30, hints_used = 0,
     f_timer_task = Some 0, f_channel_id = 5, last_guess_at = Map.empty\<rparr>"

section \<open>Properties\<close>

subsection \<open>How the helpers change the world\<close>


lemma heap_upd_duel [simp]: "duel_heap (upd_duel r f w) = (duel_heap w)(r := f (duel_heap w r))"
  and tasks_upd_duel [simp]: "tasks (upd_duel r f w) = tasks w"
  and duels_upd_duel [simp]: "duels (upd_duel r f w) = duels w"
  and next_task_upd_duel [simp]: "next_task (upd_duel r f w) = next_task w"
  and clock_upd_duel [simp]: "clock (upd_duel r f w) = clock w"
  by (simp_all add: upd_duel_def)

lemma heap_announce [simp]: "duel_heap (announce c t w) = duel_heap w"
  and tasks_announce [simp]: "tasks (announce c t w) = tasks w"
  and duels_announce [simp]: "duels (announce c t w) = duels w"
  and next_task_announce [simp]: "next_task (announce c t w) = next_task w"
  and clock_announce [simp]: "clock (announce c t w) = clock w"
  by (simp_all add: announce_def say_def)

lemma heap_add_points [simp]: "duel_heap (add_points g u p w) = duel_heap w"
  and tasks_add_points [simp]: "tasks (add_points g u p w) = tasks w"
  and duels_add_points [simp]: "duels (add_points g u p w) = duels w"
  and next_task_add_points [simp]: "next_task (add_points g u p w) = next_task w"
  and clock_add_points [simp]: "clock (add_points g u p w) = clock w"
  by (simp_all add: add_points_def)

lemma heap_cancel [simp]:
  "duel_heap (cancel_round_timer r w) = (duel_heap w)(r := (duel_heap w r)\<lparr>round_task := None\<rparr>)"
  and tasks_cancel [simp]:
  "tasks (cancel_round_timer r w) = tasks w - set_option (round_task (duel_heap w r))"
  and duels_cancel [simp]: "duels (cancel_round_timer r w) = duels w"
  and next_task_cancel [simp]: "next_task (cancel_round_timer r w) = next_task w"
  and clock_cancel [simp]: "clock (cancel_round_timer r w) = clock w"
  by (auto simp: cancel_round_timer_def Let_def split: option.splits)

lemma heap_start_round:
  "duel_heap (start_round g r w) =
     (duel_heap w)(r := (duel_heap w r)\<lparr>ch_move := None, op_move := None,
        round_started_at := clock w, round_task := Some (next_task w)\<rparr>)"
  and tasks_start_round:
  "tasks (start_round g r w) = insert (next_task w) (tasks w - set_option (round_task (duel_heap w r)))"
  and duels_start_round: "duels (start_round g r w) = duels w"
  by (simp_all add: start_round_def Let_def create_task_def split: prod.splits)










lemma pending_fields:
  "duels world_pending = [(7, 0)]"
  "duel_heap world_pending 0 = new_duel 11 22 0 5 ''hp''"
  "tasks world_pending = {}" "next_task world_pending = 0" "clock world_pending = 0"
  by (simp_all add: world_pending_def world_init_def ctx_of_def duel_def Let_def say_def
       strip_def lower_def)


lemma heap_say [simp]: "duel_heap (say d t w) = duel_heap w"
  and tasks_say [simp]: "tasks (say d t w) = tasks w"
  and duels_say [simp]: "duels (say d t w) = duels w"
  and next_task_say [simp]: "next_task (say d t w) = next_task w"
  and clock_say [simp]: "clock (say d t w) = clock w"
  by (simp_all add: say_def)

lemma active_fields:
  "duels world_active = [(7, 0)]"
  "duel_heap world_active 0 =
     (new_duel 11 22 0 5 ''hp'')\<lparr>accepted := True, d_active := True, round_task := Some 0\<rparr>"
  "tasks world_active = {0}"
  by (simp_all add: world_active_def ctx_of_def duelaccept_def Let_def pending_fields
       duel_expired_def new_duel_def heap_start_round tasks_start_round duels_start_round)












lemma parse_example: "parse_move ''!Move <Strike> '' = Some (Inr ''strike'')"
  by (simp add: parse_move_def strip_def lower_def lower_char_def ascii_uppercase_def
        ascii_lowercase_def isspace_def whitespace_def startswith_def endswith_def
        after_space_def strip_move_def Let_def)

lemma food_say [simp]: "food (say d t w) = food w"
  and ledger_say [simp]: "ledger (say d t w) = ledger w"
  and outbox_say [simp]: "outbox (say d t w) = outbox w @ [(d, t)]"
  by (simp_all add: say_def)

lemma food_upd_food [simp]: "food (upd_food g f w) = (food w)(g := map_option f (food w g))"
  and ledger_upd_food [simp]: "ledger (upd_food g f w) = ledger w"
  and tasks_upd_food [simp]: "tasks (upd_food g f w) = tasks w"
  and clock_upd_food [simp]: "clock (upd_food g f w) = clock w"
  and next_task_upd_food [simp]: "next_task (upd_food g f w) = next_task w"
  and outbox_upd_food [simp]: "outbox (upd_food g f w) = outbox w"
  by (simp_all add: upd_food_def)

lemma food_hint_refuses: "food_hint a k = Inr NoMoreHints \<longleftrightarrow> k \<notin> {0, 1, 2}"
  by (auto simp: food_hint_def Let_def split: list.splits)

lemma hint_step:
  assumes "guild c = Some gid" and "food w gid = Some st" and "f_active st"
  shows "food (snd (hint c w)) gid = Some (st\<lparr>hints_used := hints_used st + 1\<rparr>)"
  using assms by (simp add: hint_def Let_def split: sum.splits)

lemma hints_n_count:
  assumes "guild c = Some gid" and "food w gid = Some st" and "f_active st"
  shows "food (hints_n n c w) gid = Some (st\<lparr>hints_used := hints_used st + int n\<rparr>)"
  using assms
proof (induction n arbitrary: w st)
  case 0
  then show ?case by simp
next
  case (Suc n)
  from hint_step [OF Suc.prems]
  have s: "food (snd (hint c w)) gid = Some (st\<lparr>hints_used := hints_used st + 1\<rparr>)" .
  have "food (hints_n n c (snd (hint c w))) gid =
        Some (st\<lparr>hints_used := hints_used st + 1\<rparr>
               \<lparr>hints_used := hints_used (st\<lparr>hints_used := hints_used st + 1\<rparr>) + int n\<rparr>)"
    by (rule Suc.IH [OF Suc.prems(1) s]) (simp add: Suc.prems)
  then show ?case by (simp add: add.assoc)
qed

lemma hint_refused:
  assumes "guild c = Some gid" and "food w gid = Some st" and "f_active st"
    and "hints_used st \<ge> 3"
  shows "hint c w = (None, say Reply (Hint NoMoreHints)
                      (upd_food gid (\<lambda>st. st\<lparr>hints_used := hints_used st + 1\<rparr>) w))"
  using assms by (simp add: hint_def Let_def food_hint_def)

lemma lower_sushi: "lower ''sushi'' = ''sushi''"
  by (simp add: lower_def lower_char_def ascii_uppercase_def ascii_lowercase_def)

lemma food_fields:
  "food world_food 7 = Some food0" "clock world_food = 0" "ledger world_food = Map.empty"
  by (simp_all add: world_food_def world_init_def ctx_of_def foodgame_def Let_def
        is_active_food_def start_next_food_round_def announce_def cancel_food_timer_def
        create_task_def upd_food_def say_def food0_def lower_sushi
        FOOD_DEFAULT_ROUNDS_def FOOD_DEFAULT_SECONDS_def)

lemma py_int_within: "max 1 (py_int d) \<le> 10 \<longleftrightarrow> d < 11"
proof (cases "d \<ge> 0")
  case True
  have "\<lfloor>d\<rfloor> \<le> 10 \<longleftrightarrow> d < 11" by linarith
  with True show ?thesis by (simp add: py_int_def)
next
  case False
  then have "\<lceil>d\<rceil> \<le> 0" by linarith
  with False show ?thesis by (simp add: py_int_def)
qed

lemma guess_points_eq:
  "guess_points now started used =
     max 1 (2 + (if now - started < 11 then 1 else 0) - min used 2)"
  unfolding guess_points_def Let_def py_int_within ..

lemma get_add_points [simp]:
  "get_points g u (add_points g u p w) = get_points g u w + p"
  by (simp add: get_points_def add_points_def get_points_in_def add_points_in_def
        guild_scores_def Let_def split: option.splits)

lemma ledger_cancel_food [simp]: "ledger (cancel_food_timer g w) = ledger w"
  by (simp add: cancel_food_timer_def Let_def split: option.splits)

lemma ledger_start_next [simp]:
  "ledger (start_next_food_round g ch rt nr sec choice w) = ledger w"
  by (simp add: start_next_food_round_def Let_def create_task_def announce_def
        split: prod.splits)

lemma get_points_frame:
  "ledger w' = ledger w \<Longrightarrow> get_points g u w' = get_points g u w"
  by (simp add: get_points_def)

lemma guess_correct_ledger:
  assumes "guild c = Some gid" and "food w gid = Some st" and "f_active st"
    and "ans \<noteq> []"
    and "\<not> clock w - (case last_guess_at st (author c) of None \<Rightarrow> 0 | Some t \<Rightarrow> t)
            < FOOD_GUESS_COOLDOWN"
    and "lower (strip ans) = answer st"
  shows "ledger (guess c (Some ans) choice w) =
         ledger (add_points gid (author c)
                   (guess_points (clock w) (started_at st) (hints_used st)) w)"
  using assms by (simp add: guess_def Let_def add_points_def)

lemma guess_text: "lower (strip ''Sushi '') = ''sushi''"
  by (simp add: strip_def isspace_def whitespace_def lower_def lower_char_def
        ascii_uppercase_def ascii_lowercase_def)

lemma food_at:
  "food (world_food\<lparr>clock := t\<rparr>) 7 = Some food0"
  "clock (world_food\<lparr>clock := t\<rparr>) = t"
  "get_points 7 22 (world_food\<lparr>clock := t\<rparr>) = 0"
  by (simp_all add: food_fields get_points_def get_points_in_def guild_scores_def)

lemma food0_fields:
  "f_active food0" "answer food0 = ''sushi''" "started_at food0 = 0" "hints_used food0 = 0"
  "last_guess_at food0 22 = None"
  by (simp_all add: food0_def)

subsection \<open>The claims\<close>

text \<open>
  Claim C9. For all pairs of valid moves, \<open>duel_resolve\<close> returns a tie exactly when the
  two moves are equal; the challenger's move wins exactly when the pair (challenger,
  opponent) is one of (strike, feint), (feint, guard), (guard, strike); and the opponent's
  move wins in every remaining unequal pair. No valid pair raises.
\<close>

theorem duel_resolve_cycle:
  assumes "a \<in> set DUEL_MOVES" and "b \<in> set DUEL_MOVES"
  shows "(duel_resolve a b = Inr 0 \<longleftrightarrow> a = b)
       \<and> (duel_resolve a b = Inr 1 \<longleftrightarrow>
            (a, b) \<in> {(''strike'', ''feint''), (''feint'', ''guard''), (''guard'', ''strike'')})
       \<and> (duel_resolve a b = Inr 2 \<longleftrightarrow>
            a \<noteq> b \<and> (a, b) \<notin> {(''strike'', ''feint''), (''feint'', ''guard''), (''guard'', ''strike'')})
       \<and> (\<exists>r \<in> {0, 1, 2}. duel_resolve a b = Inr r)"
  using assms by (auto simp: DUEL_MOVES_def duel_resolve_def beats_def)

theorem duel_resolve_cycle_witness:
  "''guard'' \<in> set DUEL_MOVES \<and> ''strike'' \<in> set DUEL_MOVES
   \<and> duel_resolve ''guard'' ''strike'' = Inr 1
   \<and> duel_resolve ''strike'' ''guard'' = Inr 2
   \<and> duel_resolve ''guard'' ''guard'' = Inr 0"
proof -
  have g: "''guard'' \<in> set DUEL_MOVES" and s: "''strike'' \<in> set DUEL_MOVES"
    by (simp_all add: DUEL_MOVES_def)
  from duel_resolve_cycle [OF g s] duel_resolve_cycle [OF s g] duel_resolve_cycle [OF g g]
  show ?thesis using g s by simp
qed



text \<open>
  Claim C8, evaluated where it fails. User 22 accepts the duel of guild 7, so the round
  timer (task 0) runs, and then declines it: \<open>dueldecline\<close> removes the duel from the
  registry and leaves task 0 scheduled, with the handle still in the removed object.
  \<open>duelcancel\<close> in the same state cancels the task.
\<close>

theorem dueldecline_leaves_timer:
  "map_of (duels world_active) 7 = Some 0
   \<and> d_active (duel_heap world_active 0)
   \<and> round_task (duel_heap world_active 0) = Some 0
   \<and> 0 \<in> tasks world_active
   \<and> map_of (duels (dueldecline (ctx_of 7 22 5) world_active)) 7 = None
   \<and> round_task (duel_heap (dueldecline (ctx_of 7 22 5) world_active) 0) = Some 0
   \<and> 0 \<in> tasks (dueldecline (ctx_of 7 22 5) world_active)
   \<and> tasks (duelcancel (ctx_of 7 22 5) world_active) = {}"
  by (simp add: active_fields dueldecline_def duelcancel_def ctx_of_def new_duel_def)



text \<open>
  Claim C5 as stated fails: nothing caps \<open>hints_used\<close>. After four hint requests in the
  active round of the example the counter is 4.
\<close>

theorem hint_count_exceeds_three:
  "map_option f_active (food world_food 7) = Some True
   \<and> map_option hints_used (food (hints_n 4 (ctx_of 7 22 5) world_food) 7) = Some 4
   \<and> map_option (\<lambda>st. hints_used st \<le> 3) (food (hints_n 4 (ctx_of 7 22 5) world_food) 7)
       = Some False"
proof -
  have g: "guild (ctx_of 7 22 5) = Some 7" by (simp add: ctx_of_def)
  have a: "f_active food0" by (simp add: food0_def)
  from hints_n_count [OF g food_fields(1) a, of 4]
  show ?thesis by (simp add: food_fields food0_def)
qed

text \<open>
  Claim C5, amended. Every hint request in an active round raises \<open>hints_used\<close> by one,
  so after \<open>n\<close> requests it is \<open>n\<close> higher, without bound. What is bounded is the
  hints given: \<open>_food_hint\<close> refuses exactly when the count before the request is not
  0, 1 or 2, so a request made when three or more were counted is answered with the
  refusal and reveals nothing.
\<close>

theorem hint_counter_unbounded:
  assumes "guild c = Some gid" and "food w gid = Some st" and "f_active st"
  shows "map_option hints_used (food (hints_n n c w) gid) = Some (hints_used st + int n)
       \<and> (\<forall>k. food_hint (answer st) k = Inr NoMoreHints \<longleftrightarrow> k \<notin> {0, 1, 2})
       \<and> (hints_used st \<ge> 3 \<longrightarrow> fst (hint c w) = None
            \<and> outbox (snd (hint c w)) = outbox w @ [(Reply, Hint NoMoreHints)])"
  using hints_n_count [OF assms, of n] hint_refused [OF assms] food_hint_refuses
  by simp

theorem hint_counter_unbounded_witness:
  "guild (ctx_of 7 22 5) = Some 7 \<and> food world_food 7 = Some food0 \<and> f_active food0
   \<and> map_option hints_used (food (hints_n 5 (ctx_of 7 22 5) world_food) 7) = Some 5
   \<and> food_hint ''sushi'' 3 = Inr NoMoreHints
   \<and> food_hint ''sushi'' 2 \<noteq> Inr NoMoreHints"
proof -
  have g: "guild (ctx_of 7 22 5) = Some 7" by (simp add: ctx_of_def)
  have a: "f_active food0" by (simp add: food0_def)
  have an: "answer food0 = ''sushi''" "hints_used food0 = 0" by (simp_all add: food0_def)
  from hint_counter_unbounded [OF g food_fields(1) a, of 5]
  show ?thesis using g a food_fields(1) by (simp add: an)
qed

text \<open>
  Claim C7 as stated fails between 10 and 11 seconds: \<open>guess\<close> cuts the elapsed time
  down to whole seconds before comparing it with 10. A correct guess 10.5 seconds after
  the start, with no hint used, earns 3 points; the formula with the bonus for solving
  within 10 seconds gives 2.
\<close>

theorem speed_bonus_after_ten_seconds:
  "clock (world_food\<lparr>clock := 21 / 2\<rparr>) - started_at food0 = 21 / 2
   \<and> get_points 7 22 (guess (ctx_of 7 22 5) (Some ''Sushi '') (0x1F35C, ''ramen'')
        (world_food\<lparr>clock := 21 / 2\<rparr>)) = 3
   \<and> spec_guess_points (21 / 2) (hints_used food0) = 2"
proof -
  have g: "guild (ctx_of 7 22 5) = Some 7" and au: "author (ctx_of 7 22 5) = 22"
    by (simp_all add: ctx_of_def)
  have cd: "\<not> clock (world_food\<lparr>clock := 21 / 2\<rparr>)
              - (case last_guess_at food0 (author (ctx_of 7 22 5)) of None \<Rightarrow> 0 | Some t \<Rightarrow> t)
              < FOOD_GUESS_COOLDOWN"
    by (simp add: au food0_fields food_at FOOD_GUESS_COOLDOWN_def)
  have tx: "lower (strip ''Sushi '') = answer food0" by (simp add: guess_text food0_fields)
  have "get_points 7 22 (guess (ctx_of 7 22 5) (Some ''Sushi '') (0x1F35C, ''ramen'')
          (world_food\<lparr>clock := 21 / 2\<rparr>)) =
        get_points 7 22 (add_points 7 22
          (guess_points (21 / 2) (started_at food0) (hints_used food0))
          (world_food\<lparr>clock := 21 / 2\<rparr>))"
    using guess_correct_ledger [OF g food_at(1) food0_fields(1) _ cd tx, of "(0x1F35C, ''ramen'')"]
    by (simp add: get_points_def au food_at)
  then show ?thesis
    by (simp add: food_at food0_fields guess_points_eq spec_guess_points_def)
qed

text \<open>
  Claim C7, amended. A correct guess, outside the cooldown, in an active round adds
  \<open>max(1, 2 + speed_bonus - hint_penalty)\<close> points to the guesser's score, where
  \<open>speed_bonus\<close> is 1 when less than 11 seconds have passed since the round started
  (the elapsed time cut to whole seconds is at most 10) and 0 otherwise, and
  \<open>hint_penalty\<close> is \<open>min(hints_used, 2)\<close>.
\<close>

theorem guess_points_awarded:
  assumes "guild c = Some gid" and "food w gid = Some st" and "f_active st"
    and "ans \<noteq> []"
    and "\<not> clock w - (case last_guess_at st (author c) of None \<Rightarrow> 0 | Some t \<Rightarrow> t)
            < FOOD_GUESS_COOLDOWN"
    and "lower (strip ans) = answer st"
  shows "get_points gid (author c) (guess c (Some ans) choice w) =
         get_points gid (author c) w
         + max 1 (2 + (if clock w - started_at st < 11 then 1 else 0) - min (hints_used st) 2)"
proof -
  have "get_points gid (author c) (guess c (Some ans) choice w) =
        get_points gid (author c) (add_points gid (author c)
           (guess_points (clock w) (started_at st) (hints_used st)) w)"
    by (rule get_points_frame) (rule guess_correct_ledger [OF assms])
  then show ?thesis by (simp add: guess_points_eq)
qed

theorem guess_points_awarded_witness:
  "guild (ctx_of 7 22 5) = Some 7
   \<and> food (world_food\<lparr>clock := 25 / 2\<rparr>) 7 = Some food0 \<and> f_active food0
   \<and> lower (strip ''Sushi '') = answer food0
   \<and> get_points 7 22 (guess (ctx_of 7 22 5) (Some ''Sushi '') (0x1F35C, ''ramen'')
        (world_food\<lparr>clock := 25 / 2\<rparr>)) = 2"
proof -
  have g: "guild (ctx_of 7 22 5) = Some 7" and au: "author (ctx_of 7 22 5) = 22"
    by (simp_all add: ctx_of_def)
  have cd: "\<not> clock (world_food\<lparr>clock := 25 / 2\<rparr>)
              - (case last_guess_at food0 (author (ctx_of 7 22 5)) of None \<Rightarrow> 0 | Some t \<Rightarrow> t)
              < FOOD_GUESS_COOLDOWN"
    by (simp add: au food0_fields food_at FOOD_GUESS_COOLDOWN_def)
  have tx: "lower (strip ''Sushi '') = answer food0" by (simp add: guess_text food0_fields)
  have ne: "''Sushi '' \<noteq> []" by simp
  from guess_points_awarded [OF g food_at(1) food0_fields(1) ne cd tx, of "(0x1F35C, ''ramen'')"]
  show ?thesis using g tx by (simp add: au food_at food0_fields food_fields)
qed

end
